theory Spec2Isabelle
  imports Complex_Main "HOL-Library.Log_Nat"
begin

section \<open>Numbers, constants and failures\<close>

text \<open>
  The program computes on Python floats. The helper \<open>constraint\<close> only compares its
  arguments, and \<open>make_simple_profile\<close> compares, adds and subtracts them; both are
  therefore embedded over any type that offers these operations, without assuming any law
  about \<open>+\<close> and \<open>-\<close>. The module constants are decimal literals and are read as the
  real numbers they denote. Where a property depends on how a sum is rounded, the profiler
  is run on the type \<open>binary64\<close> defined below, whose \<open>+\<close> and \<open>-\<close> round as
  Python's do.
\<close>

definition WAFFLE_MAX_LIN_VEL :: real where
  "WAFFLE_MAX_LIN_VEL = 0.26"

definition WAFFLE_MAX_ANG_VEL :: real where
  "WAFFLE_MAX_ANG_VEL = 1.82"

definition LIN_VEL_STEP_SIZE :: real where
  "LIN_VEL_STEP_SIZE = 0.2"

definition ANG_VEL_STEP_SIZE :: real where
  "ANG_VEL_STEP_SIZE = 0.628"

text \<open>
  A call either raises (\<open>Inl\<close>) or returns (\<open>Inr\<close>). \<open>InvalidAxisKind\<close> and
  \<open>InvalidStepSize\<close> are the failures the specification names; \<open>TypeError\<close> is what
  Python raises when \<open>None\<close> is compared with a float.
\<close>

datatype error = InvalidAxisKind | InvalidStepSize | TypeError

section \<open>The limiter\<close>

text \<open>\<open>constraint(input, min, max)\<close>: the three-way branch of the source, in its order.\<close>

definition constraint :: "'a::linorder \<Rightarrow> 'a \<Rightarrow> 'a \<Rightarrow> 'a" where
  "constraint input min_val max_val =
     (if input < min_val then min_val
      else if input > max_val then max_val
      else input)"

text \<open>
  \<open>check_limit(type_of_velocity, velocity_value, model="waffle")\<close>. The last branch calls
  \<open>error\<close>, which the module imports from \<open>distutils.log\<close>: that function writes a log
  line and returns. The branch has no \<open>return\<close> statement, so the call returns
  \<open>None\<close>, here \<open>Inr None\<close>. No branch raises. The log line itself is not modelled.
\<close>

definition check_limit :: "string \<Rightarrow> real \<Rightarrow> string \<Rightarrow> error + real option" where
  "check_limit type_of_velocity velocity_value model =
     (if type_of_velocity = ''angular'' then
        Inr (Some (constraint velocity_value (- WAFFLE_MAX_ANG_VEL) WAFFLE_MAX_ANG_VEL))
      else if type_of_velocity = ''linear'' then
        Inr (Some (constraint velocity_value (- WAFFLE_MAX_LIN_VEL) WAFFLE_MAX_LIN_VEL))
      else Inr None)"

section \<open>The profiler\<close>

text \<open>
  \<open>make_simple_profile(output, input, slop)\<close>: \<open>output\<close> is the previous control value,
  \<open>input\<close> the target and \<open>slop\<close> the largest step. The body has no check of \<open>slop\<close>
  and no \<open>raise\<close>; every path returns.
\<close>

definition make_simple_profile :: "'a::{linorder,plus,minus} \<Rightarrow> 'a \<Rightarrow> 'a \<Rightarrow> error + 'a" where
  "make_simple_profile output input slop =
     (if input > output then Inr (min input (output + slop))
      else if input < output then Inr (max input (output - slop))
      else Inr input)"

text \<open>
  The caller keeps the result of a call as the previous control value of the next call, as
  \<open>main\<close> does from cycle to cycle; \<open>iterate_profile n\<close> is \<open>n\<close> such calls with
  the target and the step held fixed.
\<close>

fun iterate_profile :: "nat \<Rightarrow> 'a::{linorder,plus,minus} \<Rightarrow> 'a \<Rightarrow> 'a \<Rightarrow> error + 'a" where
  "iterate_profile 0 output input slop = Inr output"
| "iterate_profile (Suc n) output input slop =
     (case make_simple_profile output input slop of
        Inl e \<Rightarrow> Inl e
      | Inr v \<Rightarrow> iterate_profile n v input slop)"

section \<open>Binary64 arithmetic\<close>

text \<open>
  A Python float is an IEEE 754 binary64 number. A finite one is an integer multiple of a
  power of two: 53 significant bits, and a spacing of at least \<open>2 powi - 1074\<close>. The sum and
  the difference of two floats are the exact result rounded to the nearest such number, a
  tie going to the neighbour with the even multiple. The model keeps the finite numbers as
  the rationals they are; it has no infinities, no NaN and no negative zero, and it does
  not bound the exponent from above, so it agrees with Python as long as no result exceeds
  the largest float (about \<open>1.8e308\<close>).
\<close>

text \<open>Rounding to the nearest integer, ties to the even one.\<close>

definition round_half_even :: "rat \<Rightarrow> int" where
  "round_half_even q =
     (let n = \<lfloor>q\<rfloor>; r = q - of_int n
      in if r < 1 / 2 then n
         else if r > 1 / 2 then n + 1
         else if even n then n else n + 1)"

text \<open>
  The binade of a non-zero \<open>x\<close>: the integer \<open>e\<close> with \<open>2 powi e \<le> \<bar>x\<bar> < 2 powi (e + 1)\<close>.
  With \<open>\<bar>x\<bar> = p / q\<close> in lowest terms, the difference \<open>d\<close> of the bit lengths of \<open>p\<close>
  and \<open>q\<close> is \<open>e\<close> or \<open>e + 1\<close>.
\<close>

definition binade :: "rat \<Rightarrow> int" where
  "binade x =
     (case quotient_of \<bar>x\<bar> of
        (p, q) \<Rightarrow> (let d = bitlen p - bitlen q in if 2 powi d \<le> \<bar>x\<bar> then d else d - 1))"

text \<open>
  Rounding to binary64: in the binade \<open>e\<close> the floats are the multiples of
  \<open>2 powi (e - 52)\<close>; below \<open>2 powi - 1022\<close> (the subnormal range) the spacing stays
  \<open>2 powi - 1074\<close>.
\<close>

definition round64 :: "rat \<Rightarrow> rat" where
  "round64 x =
     (if x = 0 then 0
      else (let u = 2 powi (max (binade x) (- 1022) - 52)
            in of_int (round_half_even (x / u)) * u))"

text \<open>
  A float is kept as its value. The type has room for every rational; the floats used
  below are given by \<open>float_literal\<close> or are results of \<open>+\<close> and \<open>-\<close>, which round.
\<close>

datatype binary64 = B64 (val64: rat)

text \<open>
  Floats are compared by their values; \<open>+\<close> and \<open>-\<close> round the exact result.
\<close>

instantiation binary64 :: "{linorder, plus, minus}"
begin

definition less_eq_binary64 :: "binary64 \<Rightarrow> binary64 \<Rightarrow> bool" where
  "less_eq_binary64 x y = (val64 x \<le> val64 y)"

definition less_binary64 :: "binary64 \<Rightarrow> binary64 \<Rightarrow> bool" where
  "less_binary64 x y = (val64 x < val64 y)"

definition plus_binary64 :: "binary64 \<Rightarrow> binary64 \<Rightarrow> binary64" where
  "plus_binary64 x y = B64 (round64 (val64 x + val64 y))"

definition minus_binary64 :: "binary64 \<Rightarrow> binary64 \<Rightarrow> binary64" where
  "minus_binary64 x y = B64 (round64 (val64 x - val64 y))"

instance
  by standard (auto simp add: less_eq_binary64_def less_binary64_def binary64.expand)

end

text \<open>The float a decimal literal of the program text denotes: the nearest one.\<close>

definition float_literal :: "rat \<Rightarrow> binary64" where
  "float_literal q = B64 (round64 q)"

section \<open>The control loop of \<open>main\<close>\<close>

text \<open>
  \<open>Twist()\<close> of \<open>geometry_msgs\<close> starts with all six components at 0.0.
\<close>

record twist =
  linear_x :: real
  linear_y :: real
  linear_z :: real
  angular_x :: real
  angular_y :: real
  angular_z :: real

definition Twist :: twist where
  "Twist = \<lparr>linear_x = 0, linear_y = 0, linear_z = 0,
            angular_x = 0, angular_y = 0, angular_z = 0\<rparr>"

text \<open>
  The four velocity variables of \<open>main\<close>, and \<open>published\<close>: the messages handed to
  \<open>pub.publish\<close> so far, oldest first. Printing, the five-second sleep and the set-up of
  the terminal and of the middleware are left out.
\<close>

record state =
  target_linear_velocity :: real
  target_angular_velocity :: real
  control_linear_velocity :: real
  control_angular_velocity :: real
  published :: "twist list"

definition initial_state :: state where
  "initial_state = \<lparr>target_linear_velocity = 0, target_angular_velocity = 0,
                    control_linear_velocity = 0, control_angular_velocity = 0,
                    published = []\<rparr>"

definition publish :: "twist \<Rightarrow> state \<Rightarrow> state" where
  "publish t s = s\<lparr>published := published s @ [t]\<rparr>"

text \<open>
  The assignment of a result of \<open>check_limit\<close> to a target variable. Were the result
  \<open>None\<close>, the variable would hold it and the next comparison in
  \<open>make_simple_profile\<close>, in the same cycle and before anything is published, would raise
  \<open>TypeError\<close>; the model raises it here.
\<close>

definition store_target_linear :: "state \<Rightarrow> error + real option \<Rightarrow> error + state" where
  "store_target_linear s r =
     (case r of
        Inl e \<Rightarrow> Inl e
      | Inr None \<Rightarrow> Inl TypeError
      | Inr (Some v) \<Rightarrow> Inr (s\<lparr>target_linear_velocity := v\<rparr>))"

definition store_target_angular :: "state \<Rightarrow> error + real option \<Rightarrow> error + state" where
  "store_target_angular s r =
     (case r of
        Inl e \<Rightarrow> Inl e
      | Inr None \<Rightarrow> Inl TypeError
      | Inr (Some v) \<Rightarrow> Inr (s\<lparr>target_angular_velocity := v\<rparr>))"

text \<open>The \<open>if\<close>/\<open>elif\<close> chain on the command, in the order of the source.\<close>

definition command_branch :: "string \<Rightarrow> state \<Rightarrow> error + state" where
  "command_branch command s =
     (if command = ''Straight'' then
        store_target_linear s
          (check_limit ''linear'' (target_linear_velocity s + LIN_VEL_STEP_SIZE) ''waffle'')
      else if command = ''Back'' then
        (let s0 = s\<lparr>target_linear_velocity := 0, control_linear_velocity := 0,
                     target_angular_velocity := 0, control_angular_velocity := 0\<rparr>
         in store_target_linear s0
              (check_limit ''linear'' (target_linear_velocity s0 - LIN_VEL_STEP_SIZE) ''waffle''))
      else if command = ''Left'' then
        (let s0 = s\<lparr>target_angular_velocity := 0, control_angular_velocity := 0\<rparr>
         in store_target_angular s0
              (check_limit ''angular'' (target_angular_velocity s0 + ANG_VEL_STEP_SIZE) ''waffle''))
      else if command = ''Right'' then
        (let s0 = s\<lparr>target_angular_velocity := 0, control_angular_velocity := 0\<rparr>
         in store_target_angular s0
              (check_limit ''angular'' (target_angular_velocity s0 - ANG_VEL_STEP_SIZE) ''waffle''))
      else if command = ''Stop'' then
        Inr (s\<lparr>target_linear_velocity := 0, control_linear_velocity := 0,
                target_angular_velocity := 0, control_angular_velocity := 0\<rparr>)
      else Inr s)"

text \<open>The two calls of the profiler, linear first, each with half the step size.\<close>

definition profile_step :: "state \<Rightarrow> error + state" where
  "profile_step s =
     (case make_simple_profile (control_linear_velocity s) (target_linear_velocity s)
             (LIN_VEL_STEP_SIZE / 2) of
        Inl e \<Rightarrow> Inl e
      | Inr cl \<Rightarrow>
          (case make_simple_profile (control_angular_velocity s) (target_angular_velocity s)
                  (ANG_VEL_STEP_SIZE / 2) of
             Inl e \<Rightarrow> Inl e
           | Inr ca \<Rightarrow> Inr (s\<lparr>control_linear_velocity := cl, control_angular_velocity := ca\<rparr>)))"

text \<open>The message a cycle fills in from the two control values.\<close>

definition cycle_twist :: "state \<Rightarrow> twist" where
  "cycle_twist s =
     Twist\<lparr>linear_x := control_linear_velocity s, linear_y := 0, linear_z := 0,
           angular_x := 0, angular_y := 0, angular_z := control_angular_velocity s\<rparr>"

text \<open>
  What the surroundings do to one cycle: nothing (\<open>Proceed\<close>), \<open>pub.publish\<close> raises
  an exception (\<open>PublishRaises\<close>), or a keyboard interrupt arrives during the sleep that
  ends the cycle (\<open>Interrupt\<close>). A list of events gives one event per cycle; cycles
  beyond its end proceed.
\<close>

datatype event = Proceed | PublishRaises | Interrupt

definition next_event :: "event list \<Rightarrow> event" where
  "next_event evs = (case evs of [] \<Rightarrow> Proceed | ev # _ \<Rightarrow> ev)"

text \<open>
  How the \<open>try\<close> block is left: the loop ran over all commands, an exception was caught
  by \<open>except Exception\<close>, or an interrupt passes that clause by and propagates. The
  \<open>finally\<close> clause runs in all three cases. \<open>FinallyRaised\<close>: an exception raised
  inside the \<open>finally\<close> clause leaves \<open>main\<close>.
\<close>

datatype exit = Completed | Caught | Interrupted | FinallyRaised

fun for_loop :: "string list \<Rightarrow> event list \<Rightarrow> state \<Rightarrow> exit \<times> state" where
  "for_loop [] evs s = (Completed, s)"
| "for_loop (command # rest) evs s =
     (case command_branch command s of
        Inl e \<Rightarrow> (Caught, s)
      | Inr s1 \<Rightarrow>
          (case profile_step s1 of
             Inl e \<Rightarrow> (Caught, s1)
           | Inr s2 \<Rightarrow>
               (case next_event evs of
                  PublishRaises \<Rightarrow> (Caught, s2)
                | Interrupt \<Rightarrow> (Interrupted, publish (cycle_twist s2) s2)
                | Proceed \<Rightarrow> for_loop rest (tl evs) (publish (cycle_twist s2) s2))))"

text \<open>
  The \<open>finally\<close> clause builds a message with all components 0.0 and hands it to
  \<open>pub.publish\<close>, the call the loop makes in every cycle. This call, too, returns or
  raises. When it raises, nothing is published, the rest of the clause is skipped and the
  exception leaves \<open>main\<close>, in place of one that was on its way.
\<close>

datatype call = Returns | Raises

definition finally_block :: "call \<Rightarrow> exit \<times> state \<Rightarrow> exit \<times> state" where
  "finally_block final_publish r =
     (case r of
        (ex, s) \<Rightarrow>
          (case final_publish of
             Returns \<Rightarrow>
               (ex, publish (Twist\<lparr>linear_x := 0, linear_y := 0, linear_z := 0,
                                  angular_x := 0, angular_y := 0, angular_z := 0\<rparr>) s)
           | Raises \<Rightarrow> (FinallyRaised, s)))"

definition run :: "string list \<Rightarrow> event list \<Rightarrow> call \<Rightarrow> exit \<times> state" where
  "run cmds evs final_publish = finally_block final_publish (for_loop cmds evs initial_state)"

definition commands :: "string list" where
  "commands = [''Straight'', ''Left'', ''Right'', ''Left'', ''Back'', ''Stop'']"

definition main :: "event list \<Rightarrow> call \<Rightarrow> exit \<times> state" where
  "main evs final_publish = run commands evs final_publish"

section \<open>Properties of the limiter\<close>

lemma constraint_in_range:
  "min_val \<le> max_val \<Longrightarrow>
     min_val \<le> constraint input min_val max_val \<and> constraint input min_val max_val \<le> max_val"
  by (auto simp add: constraint_def)

lemma constraint_id:
  "min_val \<le> input \<Longrightarrow> input \<le> max_val \<Longrightarrow> constraint input min_val max_val = input"
  by (auto simp add: constraint_def)

text \<open>
  Claim C2. For every input value and for both axis kinds the limiter returns a number
  that lies in the closed interval of that kind: between -0.26 and 0.26 for
  \<open>linear\<close>, between -1.82 and 1.82 for \<open>angular\<close>.
\<close>

theorem check_limit_in_bounds:
  "(\<exists>r. check_limit ''linear'' v model = Inr (Some r) \<and> - 0.26 \<le> r \<and> r \<le> 0.26) \<and>
   (\<exists>r. check_limit ''angular'' v model = Inr (Some r) \<and> - 1.82 \<le> r \<and> r \<le> 1.82)"
proof -
  have lin: "- WAFFLE_MAX_LIN_VEL \<le> WAFFLE_MAX_LIN_VEL"
    by (simp add: WAFFLE_MAX_LIN_VEL_def)
  have ang: "- WAFFLE_MAX_ANG_VEL \<le> WAFFLE_MAX_ANG_VEL"
    by (simp add: WAFFLE_MAX_ANG_VEL_def)
  from constraint_in_range [OF lin, of v] constraint_in_range [OF ang, of v]
  show ?thesis
    by (simp add: check_limit_def WAFFLE_MAX_LIN_VEL_def WAFFLE_MAX_ANG_VEL_def)
qed

text \<open>
  Claim C9. For both axis kinds, a value that already lies within the bounds of the kind
  is returned unchanged.
\<close>

theorem check_limit_identity_in_range:
  "(- 0.26 \<le> v \<and> v \<le> 0.26 \<longrightarrow> check_limit ''linear'' v model = Inr (Some v)) \<and>
   (- 1.82 \<le> v \<and> v \<le> 1.82 \<longrightarrow> check_limit ''angular'' v model = Inr (Some v))"
  by (simp add: check_limit_def constraint_id WAFFLE_MAX_LIN_VEL_def WAFFLE_MAX_ANG_VEL_def)

theorem check_limit_identity_in_range_witness:
  "(- 0.26 \<le> (0.1::real) \<and> (0.1::real) \<le> 0.26) \<and>
   check_limit ''linear'' 0.1 ''waffle'' = Inr (Some 0.1) \<and>
   (- 1.82 \<le> (1.5::real) \<and> (1.5::real) \<le> 1.82) \<and>
   check_limit ''angular'' 1.5 ''waffle'' = Inr (Some 1.5)"
  using check_limit_identity_in_range [of "0.1" "''waffle''"]
    check_limit_identity_in_range [of "1.5" "''waffle''"]
  by simp

text \<open>
  Claim C10. The result of \<open>check_limit\<close> is the same for any two values of the
  \<open>model\<close> parameter: only the kind and the value decide it.
\<close>

theorem check_limit_model_irrelevant:
  "check_limit type_of_velocity velocity_value model1 =
   check_limit type_of_velocity velocity_value model2"
  by (simp add: check_limit_def)

text \<open>
  Claim C7. The specification asks that a kind other than \<open>linear\<close> and \<open>angular\<close> be
  rejected with \<open>InvalidAxisKind\<close>. The code does not reject it: for every value and
  every such kind the call returns \<open>None\<close>; nothing is raised.
\<close>

theorem check_limit_unknown_kind_returns_None:
  "type_of_velocity \<noteq> ''angular'' \<Longrightarrow> type_of_velocity \<noteq> ''linear'' \<Longrightarrow>
     check_limit type_of_velocity velocity_value model = Inr None"
  by (simp add: check_limit_def)

theorem check_limit_unknown_kind_returns_None_witness:
  "''sideways'' \<noteq> ''angular'' \<and> ''sideways'' \<noteq> ''linear'' \<and>
   check_limit ''sideways'' 0.1 ''waffle'' = Inr None \<and>
   check_limit ''sideways'' 0.1 ''waffle'' \<noteq> Inl InvalidAxisKind"
  using check_limit_unknown_kind_returns_None [of "''sideways''" "0.1" "''waffle''"]
  by simp

section \<open>Properties of the profiler\<close>

text \<open>
  Claim C1. The profiler computes exactly the three cases: towards a larger target the
  smaller of the target and the previous value plus the step, towards a smaller target
  the larger of the target and the previous value minus the step, and the target itself
  when it equals the previous value.
\<close>

theorem make_simple_profile_cases:
  "(input > output \<longrightarrow> make_simple_profile output input slop = Inr (min input (output + slop))) \<and>
   (input < output \<longrightarrow> make_simple_profile output input slop = Inr (max input (output - slop))) \<and>
   (input = output \<longrightarrow> make_simple_profile output input slop = Inr input)"
  by (auto simp add: make_simple_profile_def)

theorem make_simple_profile_cases_witness:
  "(5::int) > 0 \<and> make_simple_profile (0::int) 5 2 = Inr 2 \<and>
   (0::int) < 5 \<and> make_simple_profile (5::int) 0 2 = Inr 3 \<and>
   make_simple_profile (4::int) 4 2 = Inr 4"
  using make_simple_profile_cases [of "0::int" 5 2]
    make_simple_profile_cases [of "5::int" 0 2]
    make_simple_profile_cases [of "4::int" 4 2]
  by simp

text \<open>
  The next lemma needs only two facts about the arithmetic of the number type: adding the
  step does not decrease the previous value, and subtracting it does not increase it. Exact
  arithmetic with a positive step has both, and so has an addition that rounds the exact
  sum to a nearest representable number.
\<close>

lemma make_simple_profile_between_steps:
  assumes up: "(output::'a::{linorder,plus,minus}) \<le> output + slop"
    and down: "output - slop \<le> output"
  shows "\<exists>r. make_simple_profile output input slop = Inr r \<and>
             min output input \<le> r \<and> r \<le> max output input"
  using up down by (auto simp add: make_simple_profile_def min_def max_def)

text \<open>
  Claim C4. For a positive step the profiler returns a value in the closed interval between
  the previous control value and the target: it approaches the target and never passes it.
\<close>

theorem make_simple_profile_between:
  assumes "(0::'a::linordered_ab_group_add) < slop"
  shows "\<exists>r. make_simple_profile output input slop = Inr r \<and>
             min output input \<le> r \<and> r \<le> max output input"
  using assms by (intro make_simple_profile_between_steps) simp_all

theorem make_simple_profile_between_witness:
  "(0::real) < 0.1 \<and>
   (\<exists>r. make_simple_profile (0::real) 0.2 0.1 = Inr r \<and> min 0 0.2 \<le> r \<and> r \<le> max 0 0.2)"
proof -
  have pos: "(0::real) < 0.1" by simp
  show ?thesis using pos make_simple_profile_between [OF pos, of 0 "0.2"] by simp
qed



section \<open>Properties of the control loop\<close>

lemmas loop_defs = run_def commands_def initial_state_def command_branch_def
  store_target_linear_def store_target_angular_def check_limit_def constraint_def
  profile_step_def make_simple_profile_def cycle_twist_def Twist_def publish_def
  next_event_def finally_block_def WAFFLE_MAX_LIN_VEL_def WAFFLE_MAX_ANG_VEL_def
  LIN_VEL_STEP_SIZE_def ANG_VEL_STEP_SIZE_def

text \<open>
  Neither half of a cycle raises: \<open>main\<close> passes only the kinds \<open>linear\<close> and
  \<open>angular\<close> to \<open>check_limit\<close>. A cycle can fail only through its surroundings.
\<close>

lemma command_branch_returns: "\<exists>s'. command_branch command s = Inr s'"
  by (simp add: command_branch_def store_target_linear_def store_target_angular_def
      check_limit_def Let_def)

lemma profile_step_returns: "\<exists>s'. profile_step s = Inr s'"
  by (simp add: profile_step_def make_simple_profile_def)

lemma run_Returns:
  "run cmds evs Returns =
     (fst (for_loop cmds evs initial_state),
      publish \<lparr>linear_x = 0, linear_y = 0, linear_z = 0,
               angular_x = 0, angular_y = 0, angular_z = 0\<rparr>
        (snd (for_loop cmds evs initial_state)))"
  by (simp add: run_def finally_block_def Twist_def split: prod.splits)

lemma run_Raises:
  "run cmds evs Raises = (FinallyRaised, snd (for_loop cmds evs initial_state))"
  by (simp add: run_def finally_block_def split: prod.splits)

lemma run_keeps_variables:
  "target_linear_velocity (snd (run cmds evs final_publish)) =
     target_linear_velocity (snd (for_loop cmds evs initial_state))"
  "target_angular_velocity (snd (run cmds evs final_publish)) =
     target_angular_velocity (snd (for_loop cmds evs initial_state))"
  "control_linear_velocity (snd (run cmds evs final_publish)) =
     control_linear_velocity (snd (for_loop cmds evs initial_state))"
  "control_angular_velocity (snd (run cmds evs final_publish)) =
     control_angular_velocity (snd (for_loop cmds evs initial_state))"
  by (cases final_publish; simp add: run_Returns run_Raises publish_def)+

text \<open>
  Claim C6, as the specification states it: after the shutdown on any exit path the targets
  and the control values are all zero. When the first cycle (\<open>Straight\<close>) is cut short by
  an interrupt during its sleep, the \<open>finally\<close> clause publishes the zero message, but
  the linear target is still 0.2 and the linear control value still 0.1.
\<close>

theorem main_interrupted_counterexample:
  "fst (main [Interrupt] Returns) = Interrupted \<and>
   target_linear_velocity (snd (main [Interrupt] Returns)) = 0.2 \<and>
   target_linear_velocity (snd (main [Interrupt] Returns)) \<noteq> 0 \<and>
   control_linear_velocity (snd (main [Interrupt] Returns)) = 0.1 \<and>
   control_linear_velocity (snd (main [Interrupt] Returns)) \<noteq> 0 \<and>
   last (published (snd (main [Interrupt] Returns))) =
     \<lparr>linear_x = 0, linear_y = 0, linear_z = 0, angular_x = 0, angular_y = 0, angular_z = 0\<rparr>"
  by (simp add: main_def loop_defs)

text \<open>
  Claim C6, amended. For every list of commands and every way the loop is left (it
  completes, an exception is caught, an interrupt propagates), the \<open>finally\<close> clause
  makes one call of \<open>pub.publish\<close>, with the zero message. When this call returns, the
  zero message is the one message the clause publishes, after everything the cycles
  published, so that it is the last one, and the way the loop was left is kept. When this
  call raises, the clause publishes nothing and the exception leaves \<open>main\<close>; with a
  publisher that raises in the first cycle and again in the clause, no message is published
  at all. In both cases the clause leaves the two targets and the two control values as the
  cycles left them. After the built-in command list, which ends with \<open>Stop\<close>, has run to
  completion and the last call has returned, all four are zero.
\<close>

theorem finally_publishes_zero_last:
  "published (snd (run cmds evs Returns)) =
     published (snd (for_loop cmds evs initial_state)) @
       [\<lparr>linear_x = 0, linear_y = 0, linear_z = 0,
          angular_x = 0, angular_y = 0, angular_z = 0\<rparr>] \<and>
   last (published (snd (run cmds evs Returns))) =
     \<lparr>linear_x = 0, linear_y = 0, linear_z = 0, angular_x = 0, angular_y = 0, angular_z = 0\<rparr> \<and>
   fst (run cmds evs Returns) = fst (for_loop cmds evs initial_state) \<and>
   published (snd (run cmds evs Raises)) = published (snd (for_loop cmds evs initial_state)) \<and>
   fst (run cmds evs Raises) = FinallyRaised \<and>
   published (snd (main [PublishRaises] Raises)) = [] \<and>
   target_linear_velocity (snd (run cmds evs final_publish)) =
     target_linear_velocity (snd (for_loop cmds evs initial_state)) \<and>
   target_angular_velocity (snd (run cmds evs final_publish)) =
     target_angular_velocity (snd (for_loop cmds evs initial_state)) \<and>
   control_linear_velocity (snd (run cmds evs final_publish)) =
     control_linear_velocity (snd (for_loop cmds evs initial_state)) \<and>
   control_angular_velocity (snd (run cmds evs final_publish)) =
     control_angular_velocity (snd (for_loop cmds evs initial_state)) \<and>
   fst (main [] Returns) = Completed \<and>
   target_linear_velocity (snd (main [] Returns)) = 0 \<and>
   target_angular_velocity (snd (main [] Returns)) = 0 \<and>
   control_linear_velocity (snd (main [] Returns)) = 0 \<and>
   control_angular_velocity (snd (main [] Returns)) = 0"
proof -
  have returns:
    "published (snd (run cmds evs Returns)) =
       published (snd (for_loop cmds evs initial_state)) @
         [\<lparr>linear_x = 0, linear_y = 0, linear_z = 0,
            angular_x = 0, angular_y = 0, angular_z = 0\<rparr>]"
    "fst (run cmds evs Returns) = fst (for_loop cmds evs initial_state)"
    by (simp_all add: run_Returns publish_def)
  have raises:
    "published (snd (run cmds evs Raises)) = published (snd (for_loop cmds evs initial_state))"
    "fst (run cmds evs Raises) = FinallyRaised"
    by (simp_all add: run_Raises)
  have silent: "published (snd (main [PublishRaises] Raises)) = []"
    by (simp add: main_def loop_defs)
  have completed:
    "fst (main [] Returns) = Completed"
    "target_linear_velocity (snd (main [] Returns)) = 0"
    "target_angular_velocity (snd (main [] Returns)) = 0"
    "control_linear_velocity (snd (main [] Returns)) = 0"
    "control_angular_velocity (snd (main [] Returns)) = 0"
    by (simp_all add: main_def loop_defs)
  from returns raises silent completed run_keeps_variables [of cmds evs final_publish]
  show ?thesis by simp
qed

section \<open>The step bound and the convergence of the profiler\<close>

text \<open>
  Three floats of the program text, as the fractions they are, and the two sums the
  counterexamples below turn on: \<open>0.2 + 0.1\<close> is the float above three tenths that Python
  prints as \<open>0.30000000000000004\<close>, and adding 1 to \<open>2 ^ 53\<close> changes nothing.
\<close>

lemma float_literal_tenth:
  "float_literal (1 / 10) = B64 (3602879701896397 / 36028797018963968)"
  by code_simp

lemma float_literal_fifth:
  "float_literal (2 / 10) = B64 (3602879701896397 / 18014398509481984)"
  by code_simp

lemma float_literal_integers:
  "float_literal 0 = B64 0"
  "float_literal 1 = B64 1"
  "float_literal 9007199254740992 = B64 9007199254740992"
  "float_literal 18014398509481984 = B64 18014398509481984"
  by code_simp+

lemma binary64_sums:
  "float_literal (2 / 10) + float_literal (1 / 10) = B64 (1351079888211149 / 4503599627370496)"
  "float_literal 9007199254740992 + float_literal 1 = float_literal 9007199254740992"
  by code_simp+

text \<open>
  Claim C3, as the specification states it: for a positive step the result differs from the
  previous control value by at most the step. On floats, from 0.2 towards 1.0 with step
  0.1, the profiler returns \<open>0.2 + 0.1\<close>, the float \<open>0.30000000000000004\<close>. Its
  distance from 0.2 is larger than the float 0.1, whether the difference is taken exactly
  or by the subtraction of floats (which gives \<open>0.10000000000000003\<close>).
\<close>

theorem step_bound_binary64_counterexample:
  "make_simple_profile (float_literal (2 / 10)) (float_literal 1) (float_literal (1 / 10)) =
     Inr (B64 (1351079888211149 / 4503599627370496)) \<and>
   val64 (float_literal (1 / 10)) <
     1351079888211149 / 4503599627370496 - val64 (float_literal (2 / 10)) \<and>
   float_literal (1 / 10) <
     B64 (1351079888211149 / 4503599627370496) - float_literal (2 / 10)"
  by code_simp

text \<open>
  Claim C3, amended. For a positive step and exact arithmetic (integers, rationals, reals)
  the result differs from the previous control value by at most the step. In any
  arithmetic, rounded or not, in which the previous value minus the step is not above the
  previous value and the previous value plus the step is not below it, the result lies
  between that difference and that sum as the arithmetic computes them.
\<close>

theorem make_simple_profile_step_bound:
  "((0::'a::linordered_idom) < step \<longrightarrow>
      (\<exists>r. make_simple_profile prev target step = Inr r \<and> \<bar>r - prev\<bar> \<le> step)) \<and>
   ((prev2::'b::{linorder,plus,minus}) - step2 \<le> prev2 \<and> prev2 \<le> prev2 + step2 \<longrightarrow>
      (\<exists>r. make_simple_profile prev2 target2 step2 = Inr r \<and>
           prev2 - step2 \<le> r \<and> r \<le> prev2 + step2))"
  by (auto simp add: make_simple_profile_def min_def max_def abs_if)

theorem make_simple_profile_step_bound_witness:
  "(0::real) < 0.1 \<and>
   (\<exists>r. make_simple_profile (0::real) 0.2 0.1 = Inr r \<and> \<bar>r - 0\<bar> \<le> 0.1) \<and>
   float_literal (2 / 10) - float_literal (1 / 10) \<le> float_literal (2 / 10) \<and>
   float_literal (2 / 10) \<le> float_literal (2 / 10) + float_literal (1 / 10) \<and>
   (\<exists>r. make_simple_profile (float_literal (2 / 10)) (float_literal 1) (float_literal (1 / 10)) =
          Inr r \<and>
        float_literal (2 / 10) - float_literal (1 / 10) \<le> r \<and>
        r \<le> float_literal (2 / 10) + float_literal (1 / 10))"
proof -
  have pos: "(0::real) < 0.1" by simp
  have down: "float_literal (2 / 10) - float_literal (1 / 10) \<le> float_literal (2 / 10)"
    by code_simp
  have up: "float_literal (2 / 10) \<le> float_literal (2 / 10) + float_literal (1 / 10)"
    by code_simp
  from pos down up
    make_simple_profile_step_bound
      [where step = "0.1::real" and prev = 0 and target = "0.2"
         and ?prev2.0 = "float_literal (2 / 10)" and ?step2.0 = "float_literal (1 / 10)"
         and ?target2.0 = "float_literal 1"]
  show ?thesis by blast
qed

lemma exact_gap_shrinks:
  "(0::real) < slop \<Longrightarrow> \<bar>input - output\<bar> \<le> of_nat (Suc n) * slop \<Longrightarrow>
     \<exists>r. make_simple_profile output input slop = Inr r \<and> \<bar>input - r\<bar> \<le> of_nat n * slop"
  by (auto simp add: make_simple_profile_def min_def max_def abs_if algebra_simps)

lemma exact_reaches_within:
  "(0::real) < step \<Longrightarrow> \<bar>target - prev\<bar> \<le> of_nat n * step \<Longrightarrow>
     iterate_profile n prev target step = Inr target"
proof (induction n arbitrary: prev)
  case 0
  then show ?case by simp
next
  case (Suc n)
  from exact_gap_shrinks [OF Suc.prems] obtain r
    where r: "make_simple_profile prev target step = Inr r"
      and gap: "\<bar>target - r\<bar> \<le> of_nat n * step"
    by blast
  from Suc.IH [OF Suc.prems(1) gap] r show ?case by simp
qed

lemma exact_convergence:
  assumes pos: "(0::real) < step" and n: "nat \<lceil>\<bar>target - prev\<bar> / step\<rceil> \<le> n"
  shows "iterate_profile n prev target step = Inr target"
proof -
  have "\<bar>target - prev\<bar> / step \<le> of_int \<lceil>\<bar>target - prev\<bar> / step\<rceil>"
    by (rule le_of_int_ceiling)
  also have "\<dots> \<le> of_nat n"
    using n by linarith
  finally have "\<bar>target - prev\<bar> \<le> of_nat n * step"
    using pos by (simp add: pos_divide_le_eq)
  with pos show ?thesis by (rule exact_reaches_within)
qed

text \<open>Once at the target, the profiler stays there; this needs no arithmetic at all.\<close>

lemma stays_at_target:
  "iterate_profile n target target step = Inr (target::'a::{linorder,plus,minus})"
  by (induction n) (simp_all add: make_simple_profile_def)

text \<open>A call that returns the previous value is repeated by every later call.\<close>

lemma iterate_profile_stuck:
  "make_simple_profile prev target step = Inr prev \<Longrightarrow>
     iterate_profile n prev target step = Inr prev"
  by (induction n) simp_all

text \<open>
  Claim C5, as the specification states it: from any start the target is reached within
  the ceiling of the distance over the step, counted in calls. On floats, from 0.0 towards
  1.0 with step 0.1 that bound is 10, and the tenth call returns the float below 1 that
  Python prints as \<open>0.9999999999999999\<close>. From \<open>2 ^ 53\<close> towards \<open>2 ^ 54\<close> with step 1
  the bound is \<open>2 ^ 53\<close>; the sum is rounded back to the start, the first call returns
  the start, and so does the last of \<open>2 ^ 53\<close> calls.
\<close>

theorem convergence_binary64_counterexample:
  "\<lceil>\<bar>val64 (float_literal 1) - val64 (float_literal 0)\<bar> / val64 (float_literal (1 / 10))\<rceil> = 10 \<and>
   iterate_profile 10 (float_literal 0) (float_literal 1) (float_literal (1 / 10)) =
     Inr (B64 (9007199254740991 / 9007199254740992)) \<and>
   iterate_profile 10 (float_literal 0) (float_literal 1) (float_literal (1 / 10)) \<noteq>
     Inr (float_literal 1) \<and>
   \<lceil>\<bar>val64 (float_literal 18014398509481984) - val64 (float_literal 9007199254740992)\<bar> /
      val64 (float_literal 1)\<rceil> = 9007199254740992 \<and>
   iterate_profile 9007199254740992 (float_literal 9007199254740992)
       (float_literal 18014398509481984) (float_literal 1) =
     Inr (float_literal 9007199254740992) \<and>
   float_literal 9007199254740992 \<noteq> float_literal 18014398509481984"
proof -
  have bound10:
    "\<lceil>\<bar>val64 (float_literal 1) - val64 (float_literal 0)\<bar> / val64 (float_literal (1 / 10))\<rceil> = 10"
    by code_simp
  have ten:
    "iterate_profile 10 (float_literal 0) (float_literal 1) (float_literal (1 / 10)) =
       Inr (B64 (9007199254740991 / 9007199254740992))"
    by code_simp
  have short:
    "iterate_profile 10 (float_literal 0) (float_literal 1) (float_literal (1 / 10)) \<noteq>
       Inr (float_literal 1)"
    unfolding ten by (simp add: float_literal_integers)
  have bound53:
    "\<lceil>\<bar>val64 (float_literal 18014398509481984) - val64 (float_literal 9007199254740992)\<bar> /
        val64 (float_literal 1)\<rceil> = 9007199254740992"
    by (simp add: float_literal_integers)
  have "make_simple_profile (float_literal 9007199254740992)
          (float_literal 18014398509481984) (float_literal 1) =
        Inr (float_literal 9007199254740992)"
    by (simp add: make_simple_profile_def binary64_sums)
      (simp add: float_literal_integers less_binary64_def less_eq_binary64_def min_def)
  then have stuck:
    "iterate_profile 9007199254740992 (float_literal 9007199254740992)
         (float_literal 18014398509481984) (float_literal 1) =
       Inr (float_literal 9007199254740992)"
    by (rule iterate_profile_stuck)
  have apart: "float_literal 9007199254740992 \<noteq> float_literal 18014398509481984"
    by (simp add: float_literal_integers)
  from bound10 ten short bound53 stuck apart show ?thesis by simp
qed

text \<open>
  Claim C5, amended. Over the real numbers, where sums are exact, for every start, every
  target and every positive step, any number of calls that is at least the ceiling of the
  distance over the step ends exactly at the target: the target is reached within that
  many calls and every later call returns it. In any arithmetic, rounded or not, calls
  that start at the target return the target.
\<close>

theorem iterate_profile_converges:
  "(0 < step \<and> nat \<lceil>\<bar>target - prev\<bar> / step\<rceil> \<le> n \<longrightarrow>
      iterate_profile n prev target (step::real) = Inr target) \<and>
   iterate_profile m goal goal slop = Inr (goal::'a::{linorder,plus,minus})"
  by (simp add: exact_convergence stays_at_target)

theorem iterate_profile_converges_witness:
  "(0::real) < 0.1 \<and> nat \<lceil>\<bar>0.2 - 0\<bar> / (0.1::real)\<rceil> \<le> 2 \<and>
   iterate_profile 2 (0::real) 0.2 0.1 = Inr 0.2 \<and>
   nat \<lceil>\<bar>0.2 - 0\<bar> / (0.1::real)\<rceil> \<le> 3 \<and>
   iterate_profile 3 (0::real) 0.2 0.1 = Inr 0.2"
proof -
  have pos: "(0::real) < 0.1" by simp
  have two: "nat \<lceil>\<bar>0.2 - 0\<bar> / (0.1::real)\<rceil> \<le> 2" by simp
  have three: "nat \<lceil>\<bar>0.2 - 0\<bar> / (0.1::real)\<rceil> \<le> 3" by simp
  from pos two three
    iterate_profile_converges [where step = "0.1" and target = "0.2" and prev = 0 and n = 2]
    iterate_profile_converges [where step = "0.1" and target = "0.2" and prev = 0 and n = 3]
  show ?thesis by blast
qed

end
